theory Spec2Isabelle
  imports Main "HOL-Library.Word"
begin

unbundle bit_operations_syntax

section \<open>Sutter Lambda 10-3 controller: the data model\<close>

text \<open>
  The embedding follows \<^verbatim>\<open>sutter_Lambda_10_3_JLD.py\<close>, class \<^verbatim>\<open>Controller\<close>.
  A byte of the serial link is an 8-bit word. The arguments that the Python code takes
  either as a number or as a name (\<^verbatim>\<open>wheel\<close>, \<^verbatim>\<open>shutter\<close>, \<^verbatim>\<open>state\<close>, \<^verbatim>\<open>mode\<close>)
  are values of \<open>pyval\<close>; positions and speeds are Python integers.
\<close>

type_synonym byte = "8 word"

datatype pyval = PInt int | PStr string

text \<open>
  Every exception the class can raise. An assertion or an exception that carries a
  message in the source carries the same message template here; a bare \<^verbatim>\<open>assert\<close> carries
  the empty string.
\<close>

datatype error =
    IOError string
  | AssertionError string
  | RuntimeError string
  | ValueError string
  | IndexError
  | UnicodeDecodeError
  | UnboundLocalError

subsection \<open>The serial port\<close>

text \<open>
  The port (\<^verbatim>\<open>serial.Serial\<close>) is the external collaborator. It is modelled as a mock
  transport: \<open>rx\<close> is the input buffer, \<open>replies\<close> is what the device sends in answer to
  each successive write, and \<open>trace\<close> records every write and read in the order it
  happened. A read that cannot get all its bytes returns what there is, as the timed read
  of the source does after its 5 seconds.
\<close>

datatype io_event =
    Write "byte list"
  | ReadLine "byte list"
  | Read nat "byte list"

record transport =
  rx :: "byte list"
  replies :: "byte list list"
  trace :: "io_event list"

definition port_write :: "transport \<Rightarrow> byte list \<Rightarrow> transport" where
  "port_write p bs =
     (case replies p of
        [] \<Rightarrow> p\<lparr>trace := trace p @ [Write bs]\<rparr>
      | r # rs \<Rightarrow> p\<lparr>rx := rx p @ r, replies := rs, trace := trace p @ [Write bs]\<rparr>)"

definition port_read :: "transport \<Rightarrow> nat \<Rightarrow> byte list \<times> transport" where
  "port_read p n =
     (let response = take n (rx p)
      in (response, p\<lparr>rx := drop n (rx p), trace := trace p @ [Read n response]\<rparr>))"

text \<open>\<^verbatim>\<open>readline()\<close>: up to and including the first line feed, or everything on timeout.\<close>

definition port_readline :: "transport \<Rightarrow> byte list \<times> transport" where
  "port_readline p =
     (let line = takeWhile (\<lambda>b. b \<noteq> 0x0A) (rx p) @ take 1 (dropWhile (\<lambda>b. b \<noteq> 0x0A) (rx p))
      in (line, p\<lparr>rx := drop (length line) (rx p), trace := trace p @ [ReadLine line]\<rparr>))"

definition in_waiting :: "transport \<Rightarrow> nat" where
  "in_waiting p = length (rx p)"

subsection \<open>The session\<close>

text \<open>
  The instance fields of \<^verbatim>\<open>Controller\<close>. The field \<^verbatim>\<open>name\<close> only appears in printed
  text and is left out, as is everything printed: the only call inside a printed text is
  \<^verbatim>\<open>c2n\<close> on a channel number that \<^verbatim>\<open>n2c\<close> has returned, which cannot raise.
\<close>

record controller =
  verbose :: bool
  port :: transport
  wheels :: "int list"
  shutters :: "int list"
  pending_cmd :: "byte list option"
  wheel_target_positions :: "int list"

type_synonym outcome = "(error + unit) \<times> controller"

text \<open>
  A method returns the exception it raised (\<open>Inl\<close>) or \<open>Inr ()\<close>, together with the
  object as the call left it: what a method has assigned before it raises stays assigned.
\<close>

definition and_then :: "outcome \<Rightarrow> (controller \<Rightarrow> outcome) \<Rightarrow> outcome" where
  "and_then r f = (case r of (Inl e, c) \<Rightarrow> (Inl e, c) | (Inr _, c) \<Rightarrow> f c)"

section \<open>Python primitives the class uses\<close>

text \<open>\<^verbatim>\<open>xs[a:b]\<close> for \<open>0 \<le> a \<le> b\<close>.\<close>

definition slice :: "nat \<Rightarrow> nat \<Rightarrow> 'a list \<Rightarrow> 'a list" where
  "slice a b xs = take (b - a) (drop a xs)"

text \<open>\<^verbatim>\<open>bs.decode('ASCII')\<close> raises on a byte above 127.\<close>

definition decode_ascii :: "byte list \<Rightarrow> error + string" where
  "decode_ascii bs =
     (if list_all (\<lambda>b. b < 0x80) bs then Inr (map (\<lambda>b. char_of (unat b)) bs)
      else Inl UnicodeDecodeError)"

text \<open>The bytes of an ASCII string, to write frames down.\<close>

definition ascii_bytes :: "string \<Rightarrow> byte list" where
  "ascii_bytes s = map (\<lambda>c. of_nat (of_char c)) s"

text \<open>\<^verbatim>\<open>bytes([...])\<close> raises unless every number is in \<^verbatim>\<open>range(256)\<close>.\<close>

definition py_bytes :: "int list \<Rightarrow> error + byte list" where
  "py_bytes ns =
     (if list_all (\<lambda>n. 0 \<le> n \<and> n < 256) ns then Inr (map word_of_int ns)
      else Inl (ValueError ''bytes must be in range(0, 256)''))"

text \<open>\<^verbatim>\<open>xs[i] = v\<close>: a negative index counts from the end, out of range raises.\<close>

definition py_setitem :: "'a list \<Rightarrow> int \<Rightarrow> 'a \<Rightarrow> error + 'a list" where
  "py_setitem xs i v =
     (let n = int (length xs); j = (if i < 0 then n + i else i)
      in if 0 \<le> j \<and> j < n then Inr (xs[nat j := v]) else Inl IndexError)"

section \<open>Channel names and numbers\<close>

definition names_to_channels :: "(pyval \<times> pyval) list" where
  "names_to_channels = [(PStr ''A'', PInt 0), (PStr ''B'', PInt 1)]"

definition channels_to_names :: "(pyval \<times> pyval) list" where
  "channels_to_names = [(PInt 0, PStr ''A''), (PInt 1, PStr ''B'')]"

definition n2c :: "pyval \<Rightarrow> error + pyval" where
  "n2c name_or_channel =
     (if name_or_channel \<in> set (map snd names_to_channels) then Inr name_or_channel
      else case map_of names_to_channels name_or_channel of
             Some ch \<Rightarrow> Inr ch
           | None \<Rightarrow> Inl (ValueError ''Invalid filter wheel or shutter ID: %s''))"

definition c2n :: "pyval \<Rightarrow> error + pyval" where
  "c2n name_or_channel =
     (if name_or_channel \<in> set (map snd channels_to_names) then Inr name_or_channel
      else case map_of channels_to_names name_or_channel of
             Some nm \<Rightarrow> Inr nm
           | None \<Rightarrow> Inl (ValueError ''Invalid filter wheel or shutter ID: %s''))"

section \<open>Commands\<close>

definition finish_moving :: "controller \<Rightarrow> outcome" where
  "finish_moving c =
     (case pending_cmd c of
        None \<Rightarrow> (Inr (), c)
      | Some cmd \<Rightarrow>
          (let (response, p) = port_read (port c) (length cmd + 1);
               c1 = c\<lparr>port := p\<rparr>
           in if response \<noteq> cmd @ [0x0D]
              then (Inl (IOError ''%s: unexpected response''), c1)
              else (let c2 = c1\<lparr>pending_cmd := None\<rparr>
                    in if in_waiting (port c2) \<noteq> 0 then (Inl (AssertionError ''''), c2)
                       else (Inr (), c2))))"

text \<open>
  The three commands end alike (lines 98 to 103, 121 to 125, 143 to 147): write the
  command, remember it, and wait for its echo when \<^verbatim>\<open>block\<close> is set. In \<^verbatim>\<open>move\<close> the
  target position is stored between the two.
\<close>

definition move :: "controller \<Rightarrow> int \<Rightarrow> pyval \<Rightarrow> int \<Rightarrow> bool \<Rightarrow> outcome" where
  "move c position wheel speed block =
     (case n2c wheel of
        Inl e \<Rightarrow> (Inl e, c)
      | Inr (PStr _) \<Rightarrow> (Inl (AssertionError ''''), c)
      | Inr (PInt w) \<Rightarrow>
          if w \<notin> set (wheels c) then (Inl (AssertionError ''''), c)
          else and_then (if pending_cmd c \<noteq> None then finish_moving c else (Inr (), c))
            (\<lambda>c1.
              if \<not> (0 \<le> position \<and> position < 10) then (Inl (AssertionError ''''), c1)
              else if \<not> (0 \<le> speed \<and> speed < 8) then (Inl (AssertionError ''''), c1)
              else case py_bytes [push_bit 7 w + push_bit 4 speed + position] of
                Inl e \<Rightarrow> (Inl e, c1)
              | Inr cmd \<Rightarrow>
                  (let c2 = c1\<lparr>port := port_write (port c1) cmd\<rparr>;
                       c3 = c2\<lparr>pending_cmd := Some cmd\<rparr>
                   in case py_setitem (wheel_target_positions c3) w position of
                        Inl e \<Rightarrow> (Inl e, c3)
                      | Inr wtp \<Rightarrow>
                          (let c4 = c3\<lparr>wheel_target_positions := wtp\<rparr>
                           in if block then finish_moving c4 else (Inr (), c4)))))"

definition change_shutter :: "controller \<Rightarrow> pyval \<Rightarrow> pyval \<Rightarrow> bool \<Rightarrow> outcome" where
  "change_shutter c state shutter block =
     (case n2c shutter of
        Inl e \<Rightarrow> (Inl e, c)
      | Inr (PStr _) \<Rightarrow> (Inl (AssertionError ''''), c)
      | Inr (PInt sh) \<Rightarrow>
          if sh \<notin> set (shutters c) then (Inl (AssertionError ''''), c)
          else if state \<notin> set [PStr ''closed'', PStr ''open'', PInt 0, PInt 1]
          then (Inl (AssertionError ''''), c)
          else and_then (if pending_cmd c \<noteq> None then finish_moving c else (Inr (), c))
            (\<lambda>c1.
              case (if state = PStr ''open'' \<or> state = PInt 1
                    then py_bytes [128 + 32 + push_bit 4 sh + 8 + 2]
                    else if state = PStr ''closed'' \<or> state = PInt 0
                    then py_bytes [128 + 32 + push_bit 4 sh + 8 + 4]
                    else Inl UnboundLocalError) of
                Inl e \<Rightarrow> (Inl e, c1)
              | Inr cmd \<Rightarrow>
                  (let c2 = c1\<lparr>port := port_write (port c1) cmd\<rparr>;
                       c3 = c2\<lparr>pending_cmd := Some cmd\<rparr>
                   in if block then finish_moving c3 else (Inr (), c3))))"

definition set_shutter_mode :: "controller \<Rightarrow> pyval \<Rightarrow> pyval \<Rightarrow> bool \<Rightarrow> outcome" where
  "set_shutter_mode c mode shutter block =
     (case n2c shutter of
        Inl e \<Rightarrow> (Inl e, c)
      | Inr (PStr _) \<Rightarrow> (Inl (AssertionError ''''), c)
      | Inr (PInt sh) \<Rightarrow>
          if sh \<notin> set (shutters c) then (Inl (AssertionError ''''), c)
          else if mode \<notin> set [PStr ''fast'', PStr ''soft'']
          then (Inl (AssertionError ''''), c)
          else and_then (if pending_cmd c \<noteq> None then finish_moving c else (Inr (), c))
            (\<lambda>c1.
              case (if mode = PStr ''fast'' then py_bytes [220, sh + 1]
                    else if mode = PStr ''soft'' then py_bytes [221, sh + 1]
                    else Inl UnboundLocalError) of
                Inl e \<Rightarrow> (Inl e, c1)
              | Inr cmd \<Rightarrow>
                  (let c2 = c1\<lparr>port := port_write (port c1) cmd\<rparr>;
                       c3 = c2\<lparr>pending_cmd := Some cmd\<rparr>
                   in if block then finish_moving c3 else (Inr (), c3))))"

section \<open>Start-up\<close>

text \<open>
  Lines 33 to 55 of \<^verbatim>\<open>__init__\<close>: the checks on the configuration frame and the lists
  of wheels and shutters it yields.
\<close>

definition parse_configuration :: "byte list \<Rightarrow> error + (int list \<times> int list)" where
  "parse_configuration configuration =
     (if length configuration = 36
      then Inl (AssertionError ''%s: configurations with shutter C are not supported'')
      else if length configuration \<noteq> 31 then Inl (AssertionError '''')
      else case decode_ascii (drop 5 configuration) of
        Inl e \<Rightarrow> Inl e
      | Inr config_s \<Rightarrow>
          (let wa = slice 0 5 config_s; wb = slice 5 10 config_s; wc = slice 10 15 config_s;
               sa = slice 15 20 config_s; sb = slice 20 25 config_s
           in if wc \<noteq> ''WC-NC''
              then Inl (AssertionError ''%s: configurations with wheel C are not supported'')
              else if \<not> (take 3 wa = ''WA-'' \<and> take 3 wb = ''WB-'') then Inl (AssertionError '''')
              else if \<not> (take 3 sa = ''SA-'' \<and> take 3 sb = ''SB-'') then Inl (AssertionError '''')
              else if \<not> list_all (\<lambda>w. drop 3 w = ''25'' \<or> drop 3 w = ''NC'') [wa, wb]
              then Inl (AssertionError ''%s: Only 25 mm filter wheels are supported'')
              else if \<not> list_all (\<lambda>s. drop 3 s = ''IQ'' \<or> drop 3 s = ''VS'') [sa, sb]
              then Inl (AssertionError ''%s: Unrecognized shutter configuration'')
              else Inr ((if wa = ''WA-25'' then [0] else []) @ (if wb = ''WB-25'' then [1] else []),
                        (if sa = ''SA-IQ'' then [0] else []) @ (if sb = ''SB-IQ'' then [1] else []))))"

text \<open>The list comprehensions of lines 58 and 59.\<close>

fun c2n_all :: "int list \<Rightarrow> error + pyval list" where
  "c2n_all [] = Inr []"
| "c2n_all (x # xs) =
     (case c2n (PInt x) of
        Inl e \<Rightarrow> Inl e
      | Inr nm \<Rightarrow> (case c2n_all xs of Inl e \<Rightarrow> Inl e | Inr nms \<Rightarrow> Inr (nm # nms)))"

text \<open>The two homing loops of lines 75 to 79.\<close>

fun home_wheels :: "int list \<Rightarrow> controller \<Rightarrow> outcome" where
  "home_wheels [] c = (Inr (), c)"
| "home_wheels (wheel # ws) c = and_then (move c 0 (PInt wheel) 6 True) (home_wheels ws)"

fun home_shutters :: "int list \<Rightarrow> controller \<Rightarrow> outcome" where
  "home_shutters [] c = (Inr (), c)"
| "home_shutters (shutter # ss) c =
     and_then (set_shutter_mode c (PStr ''soft'') (PInt shutter) True)
       (\<lambda>c1. and_then (change_shutter c1 (PStr ''closed'') (PInt shutter) True)
          (home_shutters ss))"

text \<open>
  \<^verbatim>\<open>__init__\<close>. Its first argument is what opening the port gave: \<open>None\<close> when
  \<^verbatim>\<open>serial.Serial\<close> raised. An exception leaves no object behind. The test on \<open>vb\<close> is
  the last \<^verbatim>\<open>else\<close> of lines 60 to 72: verbose, and none of the three cases before it.
\<close>

definition Controller_init :: "transport option \<Rightarrow> bool \<Rightarrow> error + controller" where
  "Controller_init opened vb =
     (case opened of
        None \<Rightarrow> Inl (IOError ''%s: unable to connect on %s'')
      | Some p0 \<Rightarrow>
          (let p1 = port_write p0 [0xFD];
               (configuration, p2) = port_readline p1
           in case parse_configuration configuration of
                Inl e \<Rightarrow> Inl e
              | Inr (ws, ss) \<Rightarrow>
                  (case c2n_all ws of
                     Inl e \<Rightarrow> Inl e
                   | Inr wheel_names \<Rightarrow>
                       (case c2n_all ss of
                          Inl e \<Rightarrow> Inl e
                        | Inr shutter_names \<Rightarrow>
                            if vb \<and> \<not> (length ws > 0 \<and> length ss > 0)
                                  \<and> \<not> (length ws = 0 \<and> length ss > 0)
                                  \<and> \<not> (length ws > 0 \<and> length ss = 0)
                            then Inl (RuntimeError ''%s: No filter wheels or shutters connected'')
                            else
                              (let c = \<lparr>verbose = vb, port = p2, wheels = ws, shutters = ss,
                                        pending_cmd = None,
                                        wheel_target_positions = replicate (length ws) 0\<rparr>
                               in case and_then (home_wheels ws c) (home_shutters ss) of
                                    (Inl e, _) \<Rightarrow> Inl e
                                  | (Inr _, c') \<Rightarrow> Inr c')))))"

section \<open>What a run leaves in the trace\<close>

text \<open>The events a call added to the trace, and the byte strings written among them.\<close>

definition new_events :: "controller \<Rightarrow> controller \<Rightarrow> io_event list" where
  "new_events c c' = drop (length (trace (port c))) (trace (port c'))"

fun writes_of :: "io_event list \<Rightarrow> byte list list" where
  "writes_of [] = []"
| "writes_of (Write bs # evs) = bs # writes_of evs"
| "writes_of (ReadLine _ # evs) = writes_of evs"
| "writes_of (Read _ _ # evs) = writes_of evs"

text \<open>
  Either nothing was written, or the echo of the pending command \<open>p\<close> was read in full
  before the one write.
\<close>

fun echo_first :: "byte list \<Rightarrow> io_event list \<Rightarrow> bool" where
  "echo_first p (Read n response # Write w # evs) =
     (n = length p + 1 \<and> response = p @ [0x0D] \<and> writes_of evs = [])"
| "echo_first p evs = (writes_of evs = [])"

section \<open>Example frames and sessions\<close>

text \<open>
  A configuration frame as the controller sends it: the echoed query byte, the model
  name, five fields of five characters and a carriage return.
\<close>

definition frame_of :: "string \<Rightarrow> byte list" where
  "frame_of cfg = 0xFD # ascii_bytes (''10-3'' @ cfg) @ [0x0D]"

text \<open>A freshly opened port with nothing buffered and a device that will send \<open>reps\<close>.\<close>

definition mock_port :: "byte list list \<Rightarrow> transport" where
  "mock_port reps = \<lparr>rx = [], replies = reps, trace = []\<rparr>"

text \<open>A session past start-up with the given channels, pending command and port contents.\<close>

definition mock_session ::
  "int list \<Rightarrow> int list \<Rightarrow> byte list option \<Rightarrow> byte list \<Rightarrow> byte list list \<Rightarrow> controller" where
  "mock_session ws ss pend rxb reps =
     \<lparr>verbose = False, port = \<lparr>rx = rxb, replies = reps, trace = []\<rparr>, wheels = ws,
      shutters = ss, pending_cmd = pend, wheel_target_positions = replicate (length ws) 0\<rparr>"

section \<open>Auxiliary facts\<close>

subsection \<open>The command byte of a move\<close>

lemma speed_cases: "0 \<le> s \<Longrightarrow> s < 8 \<Longrightarrow> s \<in> {0, 1, 2, 3, 4, 5, 6, 7 :: int}"
  by auto

lemma position_cases: "0 \<le> p \<Longrightarrow> p < 10 \<Longrightarrow> p \<in> {0, 1, 2, 3, 4, 5, 6, 7, 8, 9 :: int}"
  by simp presburger

lemma move_byte_or:
  assumes "ch \<in> {0, 1}" "0 \<le> s" "s < 8" "0 \<le> p" "p < 10"
  shows "push_bit 7 ch + push_bit 4 s + p = (push_bit 7 ch OR push_bit 4 s OR p :: int)"
proof -
  from assms have s: "s \<in> {0, 1, 2, 3, 4, 5, 6, 7}" and p: "p \<in> {0, 1, 2, 3, 4, 5, 6, 7, 8, 9}"
    by (simp_all only: speed_cases position_cases)
  from assms(1) s p show ?thesis
    by (elim insertE emptyE) (simp_all add: push_bit_eq_mult)
qed

lemma move_byte_range:
  assumes "ch \<in> {0, 1}" "0 \<le> s" "s < 8" "0 \<le> p" "p < 10"
  shows "0 \<le> push_bit 7 ch + push_bit 4 s + p \<and> push_bit 7 ch + push_bit 4 s + p < (256::int)"
  using assms by (auto simp: push_bit_eq_mult)

subsection \<open>Channels, the port and the echo\<close>

lemma n2c_Inr: "n2c x = Inr v \<Longrightarrow> v = PInt 0 \<or> v = PInt 1"
  by (auto simp: n2c_def names_to_channels_def split: if_splits option.splits)

lemma n2c_channel: "n2c x = Inr (PInt ch) \<Longrightarrow> ch \<in> {0, 1}"
  by (drule n2c_Inr) auto

lemma trace_port_write: "trace (port_write p bs) = trace p @ [Write bs]"
  by (simp add: port_write_def split: list.splits)

lemma finish_moving_idle: "pending_cmd c = None \<Longrightarrow> finish_moving c = (Inr (), c)"
  by (simp add: finish_moving_def)

lemma finish_moving_pending:
  assumes "pending_cmd c = Some p" and "finish_moving c = (r, c1)"
  shows "trace (port c1) = trace (port c) @ [Read (length p + 1) (take (length p + 1) (rx (port c)))]"
    and "rx (port c1) = drop (length p + 1) (rx (port c))"
    and "replies (port c1) = replies (port c)"
    and "wheels c1 = wheels c" and "shutters c1 = shutters c"
    and "wheel_target_positions c1 = wheel_target_positions c" and "verbose c1 = verbose c"
    and "r = Inr () \<longleftrightarrow> take (length p + 1) (rx (port c)) = p @ [0x0D] \<and> in_waiting (port c1) = 0"
    and "take (length p + 1) (rx (port c)) = p @ [0x0D] \<Longrightarrow> pending_cmd c1 = None"
    and "take (length p + 1) (rx (port c)) \<noteq> p @ [0x0D] \<Longrightarrow> pending_cmd c1 = Some p"
  using assms
  by (auto simp: finish_moving_def port_read_def in_waiting_def Let_def split: if_splits)

lemma move_idle:
  assumes "n2c wheel = Inr (PInt ch)" and "ch \<in> set (wheels c)"
    and "0 \<le> position" "position < 10" "0 \<le> speed" "speed < 8"
    and "pending_cmd c = None"
  shows "move c position wheel speed block =
     (let cmd = [word_of_int (push_bit 7 ch OR push_bit 4 speed OR position)];
          c3 = c\<lparr>port := port_write (port c) cmd, pending_cmd := Some cmd\<rparr>
      in case py_setitem (wheel_target_positions c) ch position of
           Inl e \<Rightarrow> (Inl e, c3)
         | Inr wtp \<Rightarrow> (if block then finish_moving (c3\<lparr>wheel_target_positions := wtp\<rparr>)
                       else (Inr (), c3\<lparr>wheel_target_positions := wtp\<rparr>)))"
proof -
  have ch: "ch \<in> {0, 1}" using assms(1) by (rule n2c_channel)
  note enc = move_byte_or [OF ch assms(5,6,3,4)] move_byte_range [OF ch assms(5,6,3,4)]
  show ?thesis
    using assms enc
    by (simp add: move_def and_then_def py_bytes_def Let_def split: sum.splits)
qed

lemma move_pending:
  assumes "n2c wheel = Inr (PInt ch)" and "ch \<in> set (wheels c)" and "pending_cmd c = Some p"
  shows "move c position wheel speed block =
           and_then (finish_moving c) (\<lambda>c1. move c1 position wheel speed block)"
proof (cases "finish_moving c")
  case (Pair r c1)
  note fm = finish_moving_pending [OF assms(3) Pair]
  show ?thesis
  proof (cases r)
    case (Inl e)
    with Pair assms show ?thesis by (simp add: move_def and_then_def)
  next
    case (Inr u)
    with fm have "pending_cmd c1 = None" by simp
    with Pair Inr assms fm(4) show ?thesis by (simp add: move_def and_then_def)
  qed
qed

lemma move_idle_events:
  assumes "n2c wheel = Inr (PInt ch)" and "ch \<in> set (wheels c)"
    and "0 \<le> position" "position < 10" "0 \<le> speed" "speed < 8"
    and "pending_cmd c = None"
    and "move c position wheel speed block = (r, c')"
    and "b = word_of_int (push_bit 7 ch OR push_bit 4 speed OR position)"
  shows "trace (port c') = trace (port c) @ [Write [b]]
           \<and> (r = Inl IndexError \<or> \<not> block \<and> r = Inr () \<and> pending_cmd c' = Some [b])
         \<or> block \<and> (\<exists>response. trace (port c') = trace (port c) @ [Write [b], Read 2 response]
              \<and> (r = Inr () \<longleftrightarrow> response = [b, 0x0D] \<and> in_waiting (port c') = 0))"
proof (cases "py_setitem (wheel_target_positions c) ch position")
  case (Inl e)
  then have "e = IndexError"
    by (auto simp: py_setitem_def Let_def split: if_splits)
  with Inl assms show ?thesis
    by (auto simp: move_idle [OF assms(1-7)] Let_def trace_port_write)
next
  case (Inr wtp)
  show ?thesis
  proof (cases block)
    case False
    with Inr assms show ?thesis
      by (auto simp: move_idle [OF assms(1-7)] Let_def trace_port_write)
  next
    case True
    let ?c4 = "c\<lparr>port := port_write (port c) [b], pending_cmd := Some [b],
                  wheel_target_positions := wtp\<rparr>"
    from True Inr assms have fin: "finish_moving ?c4 = (r, c')"
      by (auto simp: move_idle [OF assms(1-7)] Let_def)
    have pend: "pending_cmd ?c4 = Some [b]" by simp
    note fm = finish_moving_pending [OF pend fin]
    from fm(1) have "trace (port c') = trace (port c) @ [Write [b], Read 2 (take 2 (rx (port ?c4)))]"
      by (simp add: trace_port_write numeral_2_eq_2)
    moreover from fm(8) have "r = Inr () \<longleftrightarrow> take 2 (rx (port ?c4)) = [b, 0x0D] \<and> in_waiting (port c') = 0"
      by (simp add: numeral_2_eq_2)
    ultimately show ?thesis using True by blast
  qed
qed

lemma writes_of_append: "writes_of (xs @ ys) = writes_of xs @ writes_of ys"
  by (induction xs rule: writes_of.induct) auto

lemma finish_moving_trace:
  "finish_moving c3 = (r, c') \<Longrightarrow>
     trace (port c') = trace (port c3) @
       (case pending_cmd c3 of None \<Rightarrow> []
        | Some p \<Rightarrow> [Read (length p + 1) (take (length p + 1) (rx (port c3)))])"
  by (auto simp: finish_moving_def port_read_def Let_def split: option.splits if_splits)

lemma change_shutter_idle_events:
  assumes "pending_cmd c = None" and "change_shutter c state shutter block = (r, c')"
  shows "c' = c \<or> (\<exists>w rest. trace (port c') = trace (port c) @ Write w # rest \<and> writes_of rest = [])"
  using assms
  by (auto simp: change_shutter_def and_then_def py_bytes_def Let_def trace_port_write
           split: sum.splits pyval.splits if_splits dest!: finish_moving_trace)

lemma set_shutter_mode_idle_events:
  assumes "pending_cmd c = None" and "set_shutter_mode c mode shutter block = (r, c')"
  shows "c' = c \<or> (\<exists>w rest. trace (port c') = trace (port c) @ Write w # rest \<and> writes_of rest = [])"
  using assms
  by (auto simp: set_shutter_mode_def and_then_def py_bytes_def Let_def trace_port_write
           split: sum.splits pyval.splits if_splits dest!: finish_moving_trace)

lemma move_idle_any_events:
  assumes "pending_cmd c = None" and "move c position wheel speed block = (r, c')"
  shows "c' = c \<or> (\<exists>w rest. trace (port c') = trace (port c) @ Write w # rest \<and> writes_of rest = [])"
  using assms
  by (auto simp: move_def and_then_def py_bytes_def Let_def trace_port_write
           split: sum.splits pyval.splits if_splits dest!: finish_moving_trace)

lemma new_events_append: "trace (port c') = trace (port c) @ evs \<Longrightarrow> new_events c c' = evs"
  by (simp add: new_events_def)

lemma echo_first_after_finish:
  assumes pend: "pending_cmd c = Some p" and fin: "finish_moving c = (r1, c1)"
    and split: "c' = c \<or> (r1 \<noteq> Inr () \<and> c' = c1)
        \<or> (r1 = Inr () \<and> (c' = c1 \<or> (\<exists>w rest. trace (port c') = trace (port c1) @ Write w # rest
                                         \<and> writes_of rest = [])))"
  shows "trace (port c') = trace (port c) @ new_events c c' \<and> echo_first p (new_events c c')"
proof -
  let ?rd = "Read (length p + 1) (take (length p + 1) (rx (port c)))"
  note fm = finish_moving_pending [OF pend fin]
  from split consider (same) "c' = c" | (stop) "c' = c1"
    | (go) w rest where "r1 = Inr ()" "trace (port c') = trace (port c1) @ Write w # rest"
        "writes_of rest = []"
    by blast
  then show ?thesis
  proof cases
    case same
    then have "new_events c c' = []" by (simp add: new_events_def)
    with same show ?thesis by simp
  next
    case stop
    with fm(1) have "trace (port c') = trace (port c) @ [?rd]" by simp
    then show ?thesis by (simp add: new_events_append)
  next
    case go
    from go(1) fm(8) have echo: "take (length p + 1) (rx (port c)) = p @ [0x0D]" by simp
    from go(2) fm(1) have "trace (port c') = trace (port c) @ ?rd # Write w # rest" by simp
    with echo go(3) show ?thesis by (simp add: new_events_append)
  qed
qed

lemma change_shutter_pending:
  assumes "pending_cmd c = Some p" and "finish_moving c = (r1, c1)"
    and "change_shutter c state shutter block = (r, c')"
  shows "c' = c \<or> (r1 \<noteq> Inr () \<and> c' = c1)
        \<or> (r1 = Inr () \<and> change_shutter c1 state shutter block = (r, c'))"
  using assms(3) assms(1,2) finish_moving_pending(5,8,9) [OF assms(1,2)]
  by (auto simp: change_shutter_def and_then_def split: sum.splits pyval.splits if_splits)

lemma set_shutter_mode_pending:
  assumes "pending_cmd c = Some p" and "finish_moving c = (r1, c1)"
    and "set_shutter_mode c mode shutter block = (r, c')"
  shows "c' = c \<or> (r1 \<noteq> Inr () \<and> c' = c1)
        \<or> (r1 = Inr () \<and> set_shutter_mode c1 mode shutter block = (r, c'))"
  using assms(3) assms(1,2) finish_moving_pending(5,8,9) [OF assms(1,2)]
  by (auto simp: set_shutter_mode_def and_then_def split: sum.splits pyval.splits if_splits)

lemma move_pending_split:
  assumes "pending_cmd c = Some p" and "finish_moving c = (r1, c1)"
    and "move c position wheel speed block = (r, c')"
  shows "c' = c \<or> (r1 \<noteq> Inr () \<and> c' = c1)
        \<or> (r1 = Inr () \<and> move c1 position wheel speed block = (r, c'))"
  using assms(3) assms(1,2) finish_moving_pending(4,8,9) [OF assms(1,2)]
  by (auto simp: move_def and_then_def split: sum.splits pyval.splits if_splits)

section \<open>Channel translation\<close>

text \<open>
  C9. \<^verbatim>\<open>n2c\<close> maps "A" to 0 and "B" to 1, returns 0 and 1 as they are, and raises
  \<^verbatim>\<open>ValueError\<close> on every other value; \<^verbatim>\<open>c2n\<close> undoes it on the names, and \<^verbatim>\<open>n2c\<close>
  undoes \<^verbatim>\<open>c2n\<close> on the numbers.
\<close>

theorem n2c_c2n_translation:
  "n2c (PStr ''A'') = Inr (PInt 0) \<and> n2c (PStr ''B'') = Inr (PInt 1)
   \<and> n2c (PInt 0) = Inr (PInt 0) \<and> n2c (PInt 1) = Inr (PInt 1)
   \<and> (x \<notin> {PStr ''A'', PStr ''B'', PInt 0, PInt 1} \<longrightarrow>
        n2c x = Inl (ValueError ''Invalid filter wheel or shutter ID: %s''))
   \<and> (nm \<in> {PStr ''A'', PStr ''B''} \<longrightarrow> (\<exists>ch. n2c nm = Inr ch \<and> c2n ch = Inr nm))
   \<and> (i \<in> {PInt 0, PInt 1} \<longrightarrow> (\<exists>n. c2n i = Inr n \<and> n2c n = Inr i))"
  by (auto simp: n2c_def c2n_def names_to_channels_def channels_to_names_def)

theorem n2c_c2n_translation_witness:
  "PStr ''C'' \<notin> {PStr ''A'', PStr ''B'', PInt 0, PInt 1}
   \<and> n2c (PStr ''C'') = Inl (ValueError ''Invalid filter wheel or shutter ID: %s'')
   \<and> PInt 2 \<notin> {PStr ''A'', PStr ''B'', PInt 0, PInt 1}
   \<and> n2c (PInt 2) = Inl (ValueError ''Invalid filter wheel or shutter ID: %s'')
   \<and> (\<exists>ch. n2c (PStr ''B'') = Inr ch \<and> c2n ch = Inr (PStr ''B''))
   \<and> (\<exists>n. c2n (PInt 1) = Inr n \<and> n2c n = Inr (PInt 1))"
  using n2c_c2n_translation [of "PStr ''C''" "PStr ''B''" "PInt 1"]
        n2c_c2n_translation [of "PInt 2" "PStr ''B''" "PInt 1"]
  by simp

section \<open>Waiting for the echo\<close>

text \<open>
  C8. \<^verbatim>\<open>_finish_moving\<close> with no pending command returns at once and leaves the object
  and the port as they were. With a pending command \<open>cmd\<close> it reads \<open>length cmd + 1\<close>
  bytes; it returns normally exactly when these are \<open>cmd\<close> followed by a carriage return
  and nothing is left in the input buffer. A different answer raises \<^verbatim>\<open>IOError\<close> and
  keeps the pending command; the right answer clears it, and bytes left over then raise
  an \<^verbatim>\<open>AssertionError\<close>.
\<close>

theorem finish_moving_echo:
  "(pending_cmd c = None \<longrightarrow> finish_moving c = (Inr (), c))
   \<and> (pending_cmd c = Some cmd \<and> finish_moving c = (r, c') \<longrightarrow>
        trace (port c') = trace (port c) @ [Read (length cmd + 1) (take (length cmd + 1) (rx (port c)))]
        \<and> rx (port c') = drop (length cmd + 1) (rx (port c))
        \<and> (r = Inr () \<longleftrightarrow>
             take (length cmd + 1) (rx (port c)) = cmd @ [0x0D] \<and> in_waiting (port c') = 0)
        \<and> (take (length cmd + 1) (rx (port c)) \<noteq> cmd @ [0x0D] \<longrightarrow>
             r = Inl (IOError ''%s: unexpected response'') \<and> pending_cmd c' = Some cmd)
        \<and> (take (length cmd + 1) (rx (port c)) = cmd @ [0x0D] \<longrightarrow>
             pending_cmd c' = None
             \<and> (in_waiting (port c') \<noteq> 0 \<longrightarrow> r = Inl (AssertionError ''''))))"
  by (auto simp: finish_moving_def port_read_def in_waiting_def Let_def split: if_splits)

theorem finish_moving_echo_witness:
  "pending_cmd (mock_session [0] [0] None [0x63, 0x0D] []) = None
   \<and> finish_moving (mock_session [0] [0] None [0x63, 0x0D] [])
       = (Inr (), mock_session [0] [0] None [0x63, 0x0D] [])
   \<and> pending_cmd (mock_session [0] [0] (Some [0x63]) [0x63, 0x0D] []) = Some [0x63]
   \<and> finish_moving (mock_session [0] [0] (Some [0x63]) [0x63, 0x0D] [])
       = (Inr (), (mock_session [0] [0] None [] [])
                    \<lparr>port := \<lparr>rx = [], replies = [], trace = [Read 2 [0x63, 0x0D]]\<rparr>\<rparr>)
   \<and> pending_cmd (mock_session [0] [0] (Some [0x63]) [0x63, 0x0D, 0x0D] []) = Some [0x63]
   \<and> fst (finish_moving (mock_session [0] [0] (Some [0x63]) [0x63, 0x0D, 0x0D] []))
       = Inl (AssertionError '''')
   \<and> pending_cmd (snd (finish_moving (mock_session [0] [0] (Some [0x63]) [0x63, 0x0D, 0x0D] [])))
       = None"
proof -
  let ?i = "mock_session [0] [0] None [0x63, 0x0D] []"
  let ?c = "mock_session [0] [0] (Some [0x63]) [0x63, 0x0D] []"
  let ?c' = "(mock_session [0] [0] None [] [])
               \<lparr>port := \<lparr>rx = [], replies = [], trace = [Read 2 [0x63, 0x0D]]\<rparr>\<rparr>"
  let ?d = "mock_session [0] [0] (Some [0x63]) [0x63, 0x0D, 0x0D] []"
  have idle: "pending_cmd ?i = None"
    by (simp add: mock_session_def)
  have pend: "pending_cmd ?c = Some [0x63]"
    by (simp add: mock_session_def)
  have run: "finish_moving ?c = (Inr (), ?c')"
    by code_simp
  have pend_d: "pending_cmd ?d = Some [0x63]"
    by (simp add: mock_session_def)
  have run_d: "finish_moving ?d = (fst (finish_moving ?d), snd (finish_moving ?d))"
    by simp
  have echo_d: "take (length [0x63 :: byte] + 1) (rx (port ?d)) = [0x63] @ [0x0D]"
    by (simp add: mock_session_def)
  have left_d: "in_waiting (port (snd (finish_moving ?d))) \<noteq> 0"
    by code_simp
  from finish_moving_echo [of ?i] idle have 1: "finish_moving ?i = (Inr (), ?i)"
    by blast
  from finish_moving_echo [of ?d "[0x63]" "fst (finish_moving ?d)" "snd (finish_moving ?d)"]
    pend_d run_d echo_d left_d
  have 2: "fst (finish_moving ?d) = Inl (AssertionError '''')
           \<and> pending_cmd (snd (finish_moving ?d)) = None"
    by blast
  from idle 1 pend run pend_d 2 show ?thesis by simp
qed

section \<open>The byte of a move\<close>

text \<open>
  C6. A move on a present wheel \<open>ch\<close> (given as a number or as a name) with position in
  0..9 and speed in 0..7 writes the one byte
  \<open>(ch << 7) | (speed << 4) | position\<close> and nothing else. Here \<open>pre\<close> is the read of
  the echo of a command that was still pending. Either that forced read fails and nothing
  is written; or the byte is written and the call ends there (not blocking, the byte now
  being the pending command, or \<^verbatim>\<open>IndexError\<close> from the position list); or the call
  blocks, reads two bytes and returns normally exactly when they are the byte and a
  carriage return and nothing is left over.
\<close>
theorem move_writes_encoded_byte:
  assumes "n2c wheel = Inr (PInt ch)" and "ch \<in> set (wheels c)"
    and "0 \<le> position" "position < 10" "0 \<le> speed" "speed < 8"
    and "move c position wheel speed block = (r, c')"
    and "b = word_of_int (push_bit 7 ch OR push_bit 4 speed OR position)"
    and "pre = (case pending_cmd c of None \<Rightarrow> []
                | Some p \<Rightarrow> [Read (length p + 1) (take (length p + 1) (rx (port c)))])"
  shows "ch \<in> {0, 1}
    \<and> (trace (port c') = trace (port c) @ pre \<and> pending_cmd c \<noteq> None \<and> r \<noteq> Inr ()
       \<or> trace (port c') = trace (port c) @ pre @ [Write [b]]
           \<and> (r = Inl IndexError \<or> \<not> block \<and> r = Inr () \<and> pending_cmd c' = Some [b])
       \<or> block \<and> (\<exists>response. trace (port c') = trace (port c) @ pre @ [Write [b], Read 2 response]
            \<and> (r = Inr () \<longleftrightarrow> response = [b, 0x0D] \<and> in_waiting (port c') = 0)))"
proof (cases "pending_cmd c")
  case None
  with assms(9) have "pre = []" by simp
  with move_idle_events [OF assms(1-6) None assms(7,8)] n2c_channel [OF assms(1)]
  show ?thesis by simp
next
  case (Some p)
  obtain r1 c1 where fin: "finish_moving c = (r1, c1)" by (cases "finish_moving c")
  note fm = finish_moving_pending [OF Some fin]
  from Some assms(9) fm(1) have tr1: "trace (port c1) = trace (port c) @ pre" by simp
  from move_pending [OF assms(1,2) Some, of position speed block] assms(7) fin
  have run: "(r, c') = and_then (r1, c1) (\<lambda>c1. move c1 position wheel speed block)" by simp
  show ?thesis
  proof (cases r1)
    case (Inl e)
    with run have "r = Inl e" "c' = c1" by (simp_all add: and_then_def)
    with tr1 Some n2c_channel [OF assms(1)] show ?thesis by simp
  next
    case (Inr u)
    with run have mv: "move c1 position wheel speed block = (r, c')"
      by (simp add: and_then_def)
    from Inr fm(8,9) have idle: "pending_cmd c1 = None" by simp
    from assms(2) fm(4) have present: "ch \<in> set (wheels c1)" by simp
    from move_idle_events [OF assms(1) present assms(3-6) idle mv assms(8)] tr1
      n2c_channel [OF assms(1)]
    show ?thesis by auto
  qed
qed

theorem move_writes_encoded_byte_witness:
  "n2c (PStr ''A'') = Inr (PInt 0)
   \<and> 0 \<in> set (wheels (mock_session [0] [0] None [] [[0x63, 0x0D]]))
   \<and> (0::int) \<le> 3 \<and> (3::int) < 10 \<and> (0::int) \<le> 6 \<and> (6::int) < 8
   \<and> move (mock_session [0] [0] None [] [[0x63, 0x0D]]) 3 (PStr ''A'') 6 True
       = (Inr (), \<lparr>verbose = False,
                   port = \<lparr>rx = [], replies = [], trace = [Write [0x63], Read 2 [0x63, 0x0D]]\<rparr>,
                   wheels = [0], shutters = [0], pending_cmd = None,
                   wheel_target_positions = [3]\<rparr>)
   \<and> (0x63 :: byte) = word_of_int (push_bit 7 0 OR push_bit 4 6 OR 3)
   \<and> (\<exists>response.
         trace (port \<lparr>verbose = False,
                      port = \<lparr>rx = [], replies = [], trace = [Write [0x63], Read 2 [0x63, 0x0D]]\<rparr>,
                      wheels = [0], shutters = [0], pending_cmd = None,
                      wheel_target_positions = [3]\<rparr>)
           = [Write [0x63], Read 2 response]
         \<and> response = [0x63, 0x0D])"
proof -
  let ?c = "mock_session [0] [0] None [] [[0x63, 0x0D]]"
  let ?c' = "\<lparr>verbose = False,
              port = \<lparr>rx = [], replies = [], trace = [Write [0x63], Read 2 [0x63, 0x0D]]\<rparr>,
              wheels = [0], shutters = [0], pending_cmd = None,
              wheel_target_positions = [3]\<rparr>"
  have h1: "n2c (PStr ''A'') = Inr (PInt 0)" by code_simp
  have h2: "0 \<in> set (wheels ?c)" by (simp add: mock_session_def)
  have h3: "(0::int) \<le> 3" "(3::int) < 10" "(0::int) \<le> 6" "(6::int) < 8" by simp_all
  have h7: "move ?c 3 (PStr ''A'') 6 True = (Inr (), ?c')" by code_simp
  have h8: "(0x63 :: byte) = word_of_int (push_bit 7 0 OR push_bit 4 6 OR 3)" by simp
  have h9: "[] = (case pending_cmd ?c of None \<Rightarrow> []
                  | Some p \<Rightarrow> [Read (length p + 1) (take (length p + 1) (rx (port ?c)))])"
    by (simp add: mock_session_def)
  have h0: "trace (port ?c) = []" by (simp add: mock_session_def)
  note concl = move_writes_encoded_byte [OF h1 h2 h3 h7 h8 h9]
  from concl
  have ex: "\<exists>response. trace (port ?c') = [Write [0x63], Read 2 response] \<and> response = [0x63, 0x0D]"
    by (simp add: h0)
  from h1 h2 h3 h7 h8 ex show ?thesis
    by blast
qed

section \<open>One command in flight\<close>

text \<open>
  C5. The pending command is one optional field, so there is never more than one. When
  \<^verbatim>\<open>move\<close>, \<^verbatim>\<open>change_shutter\<close> or \<^verbatim>\<open>set_shutter_mode\<close> is called while a command \<open>p\<close>
  is pending, the call only adds events to the trace, and either it writes nothing, or
  the first event is the read of \<open>length p + 1\<close> bytes that returned \<open>p\<close> followed by a
  carriage return, the second is the one write of the call, and no write follows.
\<close>

theorem pending_echo_consumed_before_write:
  assumes "pending_cmd c = Some p"
  shows "trace (port (snd (move c position wheel speed block)))
           = trace (port c) @ new_events c (snd (move c position wheel speed block))
       \<and> echo_first p (new_events c (snd (move c position wheel speed block)))
       \<and> trace (port (snd (change_shutter c state shutter block)))
           = trace (port c) @ new_events c (snd (change_shutter c state shutter block))
       \<and> echo_first p (new_events c (snd (change_shutter c state shutter block)))
       \<and> trace (port (snd (set_shutter_mode c mode shutter block)))
           = trace (port c) @ new_events c (snd (set_shutter_mode c mode shutter block))
       \<and> echo_first p (new_events c (snd (set_shutter_mode c mode shutter block)))"
proof -
  obtain r1 c1 where fin: "finish_moving c = (r1, c1)"
    by (cases "finish_moving c")
  note fm = finish_moving_pending [OF assms fin]
  have idle: "r1 = Inr () \<Longrightarrow> pending_cmd c1 = None"
    using fm(8,9) by simp
  have mv: "trace (port c') = trace (port c) @ new_events c c' \<and> echo_first p (new_events c c')"
    if run: "move c position wheel speed block = (r, c')" for r c'
  proof (rule echo_first_after_finish [OF assms fin])
    from move_pending_split [OF assms fin run] idle
    show "c' = c \<or> (r1 \<noteq> Inr () \<and> c' = c1)
        \<or> (r1 = Inr () \<and> (c' = c1 \<or> (\<exists>w rest. trace (port c') = trace (port c1) @ Write w # rest
                                         \<and> writes_of rest = [])))"
      by (auto dest: move_idle_any_events)
  qed
  have cs: "trace (port c') = trace (port c) @ new_events c c' \<and> echo_first p (new_events c c')"
    if run: "change_shutter c state shutter block = (r, c')" for r c'
  proof (rule echo_first_after_finish [OF assms fin])
    from change_shutter_pending [OF assms fin run] idle
    show "c' = c \<or> (r1 \<noteq> Inr () \<and> c' = c1)
        \<or> (r1 = Inr () \<and> (c' = c1 \<or> (\<exists>w rest. trace (port c') = trace (port c1) @ Write w # rest
                                         \<and> writes_of rest = [])))"
      by (auto dest: change_shutter_idle_events)
  qed
  have sm: "trace (port c') = trace (port c) @ new_events c c' \<and> echo_first p (new_events c c')"
    if run: "set_shutter_mode c mode shutter block = (r, c')" for r c'
  proof (rule echo_first_after_finish [OF assms fin])
    from set_shutter_mode_pending [OF assms fin run] idle
    show "c' = c \<or> (r1 \<noteq> Inr () \<and> c' = c1)
        \<or> (r1 = Inr () \<and> (c' = c1 \<or> (\<exists>w rest. trace (port c') = trace (port c1) @ Write w # rest
                                         \<and> writes_of rest = [])))"
      by (auto dest: set_shutter_mode_idle_events)
  qed
  from mv [OF prod.collapse [symmetric]] cs [OF prod.collapse [symmetric]]
    sm [OF prod.collapse [symmetric]]
  show ?thesis by blast
qed

theorem pending_echo_consumed_before_write_witness:
  "pending_cmd (mock_session [0, 1] [0] (Some [0x66]) [0x66, 0x0D] [[0xE1, 0x0D]]) = Some [0x66]
   \<and> new_events (mock_session [0, 1] [0] (Some [0x66]) [0x66, 0x0D] [[0xE1, 0x0D]])
        (snd (move (mock_session [0, 1] [0] (Some [0x66]) [0x66, 0x0D] [[0xE1, 0x0D]])
                1 (PInt 1) 6 False))
       = [Read 2 [0x66, 0x0D], Write [0xE1]]
   \<and> echo_first [0x66]
        (new_events (mock_session [0, 1] [0] (Some [0x66]) [0x66, 0x0D] [[0xE1, 0x0D]])
           (snd (move (mock_session [0, 1] [0] (Some [0x66]) [0x66, 0x0D] [[0xE1, 0x0D]])
                   1 (PInt 1) 6 False)))"
proof -
  let ?c = "mock_session [0, 1] [0] (Some [0x66]) [0x66, 0x0D] [[0xE1, 0x0D]]"
  have pend: "pending_cmd ?c = Some [0x66]"
    by (simp add: mock_session_def)
  have evs: "new_events ?c (snd (move ?c 1 (PInt 1) 6 False)) = [Read 2 [0x66, 0x0D], Write [0xE1]]"
    by code_simp
  from pending_echo_consumed_before_write [OF pend, where position = 1 and wheel = "PInt 1"
      and speed = 6 and block = False]
  have "echo_first [0x66] (new_events ?c (snd (move ?c 1 (PInt 1) 6 False)))"
    by blast
  with pend evs show ?thesis by blast
qed

section \<open>The length of the configuration frame\<close>

text \<open>
  C7. When the line read in answer to the query byte is not 31 bytes long, \<^verbatim>\<open>__init__\<close>
  raises an \<^verbatim>\<open>AssertionError\<close> whatever the line holds: the one about shutter C for 36
  bytes, a bare one for every other length.
\<close>

theorem configuration_length_checked:
  assumes "port_readline (port_write p0 [0xFD]) = (configuration, p2)"
    and "length configuration \<noteq> 31"
  shows "Controller_init (Some p0) vb =
           Inl (AssertionError (if length configuration = 36
                                then ''%s: configurations with shutter C are not supported''
                                else ''''))"
  using assms by (simp add: Controller_init_def parse_configuration_def)

theorem configuration_length_checked_witness:
  "port_readline (port_write (mock_port [frame_of ''WA-25WB-NCWC-NCSA-IQSB-IQSC-IQ'']) [0xFD])
     = (frame_of ''WA-25WB-NCWC-NCSA-IQSB-IQSC-IQ'',
        \<lparr>rx = [], replies = [],
         trace = [Write [0xFD], ReadLine (frame_of ''WA-25WB-NCWC-NCSA-IQSB-IQSC-IQ'')]\<rparr>)
   \<and> length (frame_of ''WA-25WB-NCWC-NCSA-IQSB-IQSC-IQ'') = 36
   \<and> Controller_init (Some (mock_port [frame_of ''WA-25WB-NCWC-NCSA-IQSB-IQSC-IQ''])) False
       = Inl (AssertionError ''%s: configurations with shutter C are not supported'')
   \<and> port_readline (port_write (mock_port [frame_of ''WA-25WB-NC'']) [0xFD])
     = (frame_of ''WA-25WB-NC'',
        \<lparr>rx = [], replies = [], trace = [Write [0xFD], ReadLine (frame_of ''WA-25WB-NC'')]\<rparr>)
   \<and> length (frame_of ''WA-25WB-NC'') = 16
   \<and> Controller_init (Some (mock_port [frame_of ''WA-25WB-NC''])) True
       = Inl (AssertionError '''')"
proof -
  let ?long = "frame_of ''WA-25WB-NCWC-NCSA-IQSB-IQSC-IQ''"
  let ?short = "frame_of ''WA-25WB-NC''"
  have r1: "port_readline (port_write (mock_port [?long]) [0xFD])
     = (?long, \<lparr>rx = [], replies = [], trace = [Write [0xFD], ReadLine ?long]\<rparr>)"
    by code_simp
  have l1: "length ?long = 36"
    by (simp add: frame_of_def ascii_bytes_def)
  have r2: "port_readline (port_write (mock_port [?short]) [0xFD])
     = (?short, \<lparr>rx = [], replies = [], trace = [Write [0xFD], ReadLine ?short]\<rparr>)"
    by code_simp
  have l2: "length ?short = 16"
    by (simp add: frame_of_def ascii_bytes_def)
  from l1 have n1: "length ?long \<noteq> 31" by simp
  from l2 have n2: "length ?short \<noteq> 31" by simp
  from configuration_length_checked [OF r1 n1, of False] l1
  have e1: "Controller_init (Some (mock_port [?long])) False
              = Inl (AssertionError ''%s: configurations with shutter C are not supported'')"
    by (simp only: simp_thms if_True)
  from configuration_length_checked [OF r2 n2, of True] l2
  have e2: "Controller_init (Some (mock_port [?short])) True = Inl (AssertionError '''')"
    by simp
  from r1 l1 e1 r2 l2 e2 show ?thesis by blast
qed

section \<open>Numeric shutter states\<close>

text \<open>
  C10. \<^verbatim>\<open>change_shutter\<close> treats state 0 as "closed" and state 1 as "open": the calls
  are equal. Any state other than "closed", "open", 0 and 1 raises and leaves the session
  and the port as they were. From an idle session the only bytes written are
  \<open>128 + 32 + (shutter << 4) + 8 + 4\<close> for state 0 and
  \<open>128 + 32 + (shutter << 4) + 8 + 2\<close> for state 1.
\<close>
theorem change_shutter_numeric_states:
  "change_shutter c (PInt 0) shutter block = change_shutter c (PStr ''closed'') shutter block
   \<and> change_shutter c (PInt 1) shutter block = change_shutter c (PStr ''open'') shutter block
   \<and> (state \<notin> {PStr ''closed'', PStr ''open'', PInt 0, PInt 1} \<longrightarrow>
        (\<exists>e. change_shutter c state shutter block = (Inl e, c)))
   \<and> (n2c shutter = Inr (PInt sh) \<and> sh \<in> set (shutters c) \<and> pending_cmd c = None \<longrightarrow>
        writes_of (new_events c (snd (change_shutter c (PInt 0) shutter block)))
          = [[word_of_int (128 + 32 + push_bit 4 sh + 8 + 4)]]
        \<and> writes_of (new_events c (snd (change_shutter c (PInt 1) shutter block)))
          = [[word_of_int (128 + 32 + push_bit 4 sh + 8 + 2)]])"
proof (intro conjI impI)
  show "change_shutter c (PInt 0) shutter block = change_shutter c (PStr ''closed'') shutter block"
    by (simp add: change_shutter_def split: sum.splits pyval.splits)
  show "change_shutter c (PInt 1) shutter block = change_shutter c (PStr ''open'') shutter block"
    by (simp add: change_shutter_def split: sum.splits pyval.splits)
  show "\<exists>e. change_shutter c state shutter block = (Inl e, c)"
    if "state \<notin> {PStr ''closed'', PStr ''open'', PInt 0, PInt 1}"
    using that by (auto simp: change_shutter_def split: sum.splits pyval.splits)
next
  assume a: "n2c shutter = Inr (PInt sh) \<and> sh \<in> set (shutters c) \<and> pending_cmd c = None"
  then have sh: "sh = 0 \<or> sh = 1" using n2c_channel [of shutter sh] by simp
  have wr: "writes_of (new_events c (snd (change_shutter c st shutter block)))
              = [[word_of_int (128 + 32 + push_bit 4 sh + 8 + k)]]"
    if "st = PInt 0 \<and> k = 4 \<or> st = PInt 1 \<and> k = 2" for st k
  proof -
    let ?cmd = "[word_of_int (128 + 32 + push_bit 4 sh + 8 + k)] :: byte list"
    let ?c3 = "c\<lparr>port := port_write (port c) ?cmd, pending_cmd := Some ?cmd\<rparr>"
    from a sh that have run: "change_shutter c st shutter block
        = (if block then finish_moving ?c3 else (Inr (), ?c3))"
      by (auto simp: change_shutter_def and_then_def py_bytes_def Let_def)
    obtain r c' where fin: "finish_moving ?c3 = (r, c')" by (cases "finish_moving ?c3")
    from finish_moving_trace [OF fin]
    have "trace (port c') = trace (port c) @ [Write ?cmd,
            Read (length ?cmd + 1) (take (length ?cmd + 1) (rx (port ?c3)))]"
      by (simp add: trace_port_write)
    then have "writes_of (new_events c c') = [?cmd]"
      by (simp add: new_events_def)
    moreover have "writes_of (new_events c ?c3) = [?cmd]"
      by (simp add: new_events_def trace_port_write)
    ultimately show ?thesis using run fin by simp
  qed
  from wr [of "PInt 0" 4]
  show "writes_of (new_events c (snd (change_shutter c (PInt 0) shutter block)))
          = [[word_of_int (128 + 32 + push_bit 4 sh + 8 + 4)]]" by simp
  from wr [of "PInt 1" 2]
  show "writes_of (new_events c (snd (change_shutter c (PInt 1) shutter block)))
          = [[word_of_int (128 + 32 + push_bit 4 sh + 8 + 2)]]" by simp
qed

theorem change_shutter_numeric_states_witness:
  "PInt 2 \<notin> {PStr ''closed'', PStr ''open'', PInt 0, PInt 1}
   \<and> (\<exists>e. change_shutter (mock_session [0] [0] None [] [[0xAC, 0x0D]]) (PInt 2) (PStr ''A'') True
            = (Inl e, mock_session [0] [0] None [] [[0xAC, 0x0D]]))
   \<and> n2c (PStr ''A'') = Inr (PInt 0)
   \<and> 0 \<in> set (shutters (mock_session [0] [0] None [] [[0xAC, 0x0D]]))
   \<and> pending_cmd (mock_session [0] [0] None [] [[0xAC, 0x0D]]) = None
   \<and> writes_of (new_events (mock_session [0] [0] None [] [[0xAC, 0x0D]])
         (snd (change_shutter (mock_session [0] [0] None [] [[0xAC, 0x0D]]) (PInt 0) (PStr ''A'') True)))
       = [[0xAC]]
   \<and> writes_of (new_events (mock_session [0] [0] None [] [[0xAC, 0x0D]])
         (snd (change_shutter (mock_session [0] [0] None [] [[0xAC, 0x0D]]) (PInt 1) (PStr ''A'') True)))
       = [[0xAA]]
   \<and> change_shutter (mock_session [0] [0] None [] [[0xAC, 0x0D]]) (PStr ''closed'') (PStr ''A'') True
       = (Inr (), \<lparr>verbose = False,
                   port = \<lparr>rx = [], replies = [], trace = [Write [0xAC], Read 2 [0xAC, 0x0D]]\<rparr>,
                   wheels = [0], shutters = [0], pending_cmd = None,
                   wheel_target_positions = [0]\<rparr>)"
proof -
  let ?c = "mock_session [0] [0] None [] [[0xAC, 0x0D]]"
  note inst = change_shutter_numeric_states [where c = ?c and shutter = "PStr ''A''"
      and block = True and state = "PInt 2" and sh = 0]
  have h1: "PInt 2 \<notin> {PStr ''closed'', PStr ''open'', PInt 0, PInt 1}" by simp
  have h2: "n2c (PStr ''A'') = Inr (PInt 0)" by code_simp
  have h3: "0 \<in> set (shutters ?c)" by (simp add: mock_session_def)
  have h4: "pending_cmd ?c = None" by (simp add: mock_session_def)
  have b1: "(word_of_int (128 + 32 + push_bit 4 0 + 8 + 4) :: byte) = 0xAC" by simp
  have b2: "(word_of_int (128 + 32 + push_bit 4 0 + 8 + 2) :: byte) = 0xAA" by simp
  have run: "change_shutter ?c (PStr ''closed'') (PStr ''A'') True
       = (Inr (), \<lparr>verbose = False,
                   port = \<lparr>rx = [], replies = [], trace = [Write [0xAC], Read 2 [0xAC, 0x0D]]\<rparr>,
                   wheels = [0], shutters = [0], pending_cmd = None,
                   wheel_target_positions = [0]\<rparr>)"
    by code_simp
  from inst h1 have rej: "\<exists>e. change_shutter ?c (PInt 2) (PStr ''A'') True = (Inl e, ?c)"
    by blast
  from inst h2 h3 h4
  have "writes_of (new_events ?c (snd (change_shutter ?c (PInt 0) (PStr ''A'') True)))
          = [[word_of_int (128 + 32 + push_bit 4 0 + 8 + 4)]]"
    and "writes_of (new_events ?c (snd (change_shutter ?c (PInt 1) (PStr ''A'') True)))
          = [[word_of_int (128 + 32 + push_bit 4 0 + 8 + 2)]]"
    by blast+
  then have w0: "writes_of (new_events ?c (snd (change_shutter ?c (PInt 0) (PStr ''A'') True))) = [[0xAC]]"
    and w1: "writes_of (new_events ?c (snd (change_shutter ?c (PInt 1) (PStr ''A'') True))) = [[0xAA]]"
    by (simp_all only: b1 b2)
  from h1 rej h2 h3 h4 w0 w1 run show ?thesis by blast
qed

section \<open>Shutter types in the configuration frame\<close>

text \<open>Bytes of ASCII text decode to the text they were made from.\<close>

lemma unat_byte_of_char: "unat (of_nat (of_char c) :: byte) = of_char c"
  by (simp add: unat_of_nat)

lemma byte_of_char_less: "(of_nat (of_char c) :: byte) < 0x80 \<longleftrightarrow> of_char c < (128::nat)"
  by (simp add: word_less_nat_alt unat_byte_of_char)

lemma decode_ascii_bytes:
  "decode_ascii (ascii_bytes s @ [t]) =
     (if list_all (\<lambda>c. of_char c < (128::nat)) s \<and> t < 0x80
      then Inr (s @ [char_of (unat t)]) else Inl UnicodeDecodeError)"
  by (simp add: decode_ascii_def ascii_bytes_def list_all_iff byte_of_char_less
        unat_byte_of_char map_idI)

lemma length_ascii_bytes: "length (ascii_bytes s) = length s"
  by (simp add: ascii_bytes_def)

lemma two_chars: "length s = 2 \<Longrightarrow> \<exists>x y. s = [x, y]"
  by (auto simp: numeral_2_eq_2 length_Suc_conv)

text \<open>
  C2, as the code has it. Take a frame of 31 bytes with a five-byte header, the tags in
  place, wheel fields that read "25" or "NC", wheel C not connected and a last byte below
  128. It is parsed without error exactly when both shutter fields read "IQ" or "VS".
  Every other pair of characters, "NC" among them, raises: \<^verbatim>\<open>UnicodeDecodeError\<close> when a
  character is not ASCII, else the \<^verbatim>\<open>AssertionError\<close> "Unrecognized shutter
  configuration". Only "IQ" puts the shutter in the list of shutters.
\<close>

theorem shutter_subtypes_accepted:
  assumes "length hdr = 5" and "wa \<in> {''25'', ''NC''}" and "wb \<in> {''25'', ''NC''}"
    and "length sa = 2" and "length sb = 2" and "t < 0x80"
    and "frame = hdr @ ascii_bytes (''WA-'' @ wa @ ''WB-'' @ wb @ ''WC-NC''
                                    @ ''SA-'' @ sa @ ''SB-'' @ sb) @ [t]"
  shows "((\<exists>ws ss. parse_configuration frame = Inr (ws, ss))
            \<longleftrightarrow> sa \<in> {''IQ'', ''VS''} \<and> sb \<in> {''IQ'', ''VS''})
    \<and> parse_configuration frame =
         (if \<not> list_all (\<lambda>c. of_char c < (128::nat)) (sa @ sb) then Inl UnicodeDecodeError
          else if sa \<in> {''IQ'', ''VS''} \<and> sb \<in> {''IQ'', ''VS''}
          then Inr ((if wa = ''25'' then [0] else []) @ (if wb = ''25'' then [1] else []),
                    (if sa = ''IQ'' then [0] else []) @ (if sb = ''IQ'' then [1] else []))
          else Inl (AssertionError ''%s: Unrecognized shutter configuration''))"
proof -
  from assms(4) obtain a1 a2 where sa: "sa = [a1, a2]" by (auto dest: two_chars)
  from assms(5) obtain b1 b2 where sb: "sb = [b1, b2]" by (auto dest: two_chars)
  from assms(2) have lwa: "length wa = 2" by auto
  from assms(3) have lwb: "length wb = 2" by auto
  define s where "s = ''WA-'' @ wa @ ''WB-'' @ wb @ ''WC-NC'' @ ''SA-'' @ sa @ ''SB-'' @ sb"
  have len: "length frame = 31"
    using assms(1,4,5,7) lwa lwb by (simp add: length_ascii_bytes)
  have drp: "drop 5 frame = ascii_bytes s @ [t]"
    using assms(1,7) by (simp add: s_def)
  have asc: "list_all (\<lambda>c. of_char c < (128::nat)) s
               \<longleftrightarrow> list_all (\<lambda>c. of_char c < (128::nat)) (sa @ sb)"
    using assms(2,3) by (auto simp: s_def)
  have res: "parse_configuration frame =
         (if \<not> list_all (\<lambda>c. of_char c < (128::nat)) (sa @ sb) then Inl UnicodeDecodeError
          else if sa \<in> {''IQ'', ''VS''} \<and> sb \<in> {''IQ'', ''VS''}
          then Inr ((if wa = ''25'' then [0] else []) @ (if wb = ''25'' then [1] else []),
                    (if sa = ''IQ'' then [0] else []) @ (if sb = ''IQ'' then [1] else []))
          else Inl (AssertionError ''%s: Unrecognized shutter configuration''))"
  proof (cases "list_all (\<lambda>c. of_char c < (128::nat)) (sa @ sb)")
    case False
    with asc have "\<not> list_all (\<lambda>c. of_char c < (128::nat)) s" by blast
    with False show ?thesis
      by (simp add: parse_configuration_def len drp decode_ascii_bytes)
  next
    case True
    with asc have "list_all (\<lambda>c. of_char c < (128::nat)) s" by blast
    with assms(6) have dec: "decode_ascii (drop 5 frame) = Inr (s @ [char_of (unat t)])"
      by (simp add: drp decode_ascii_bytes)
    have sl: "slice 0 5 (s @ [char_of (unat t)]) = ''WA-'' @ wa"
      "slice 5 10 (s @ [char_of (unat t)]) = ''WB-'' @ wb"
      "slice 10 15 (s @ [char_of (unat t)]) = ''WC-NC''"
      "slice 15 20 (s @ [char_of (unat t)]) = ''SA-'' @ sa"
      "slice 20 25 (s @ [char_of (unat t)]) = ''SB-'' @ sb"
      using lwa lwb by (simp_all add: s_def slice_def sa sb)
    from assms(2,3) True show ?thesis
      by (simp add: parse_configuration_def len dec sl Let_def)
  qed
  have "sa \<in> {''IQ'', ''VS''} \<and> sb \<in> {''IQ'', ''VS''}
          \<Longrightarrow> list_all (\<lambda>c. of_char c < (128::nat)) (sa @ sb)"
    by auto
  with res show ?thesis by auto
qed

theorem shutter_subtypes_accepted_witness:
  "length [0xFD, 0x31, 0x30, 0x2D, 0x33 :: byte] = 5
   \<and> ''25'' \<in> {''25'', ''NC''} \<and> ''NC'' \<in> {''25'', ''NC''}
   \<and> length ''IQ'' = 2 \<and> length ''VS'' = 2 \<and> (0x0D :: byte) < 0x80
   \<and> frame_of ''WA-25WB-NCWC-NCSA-IQSB-VS''
       = [0xFD, 0x31, 0x30, 0x2D, 0x33]
         @ ascii_bytes (''WA-'' @ ''25'' @ ''WB-'' @ ''NC'' @ ''WC-NC'' @ ''SA-'' @ ''IQ'' @ ''SB-'' @ ''VS'')
         @ [0x0D]
   \<and> parse_configuration (frame_of ''WA-25WB-NCWC-NCSA-IQSB-VS'') = Inr ([0], [0])"
proof -
  have h1: "length [0xFD, 0x31, 0x30, 0x2D, 0x33 :: byte] = 5" by simp
  have h2: "''25'' \<in> {''25'', ''NC''}" by simp
  have h3: "''NC'' \<in> {''25'', ''NC''}" by simp
  have h4: "length ''IQ'' = 2" by simp
  have h5: "length ''VS'' = 2" by simp
  have h6: "(0x0D :: byte) < 0x80" by simp
  have h7: "frame_of ''WA-25WB-NCWC-NCSA-IQSB-VS''
       = [0xFD, 0x31, 0x30, 0x2D, 0x33]
         @ ascii_bytes (''WA-'' @ ''25'' @ ''WB-'' @ ''NC'' @ ''WC-NC'' @ ''SA-'' @ ''IQ'' @ ''SB-'' @ ''VS'')
         @ [0x0D]"
    by code_simp
  from shutter_subtypes_accepted [OF h1 h2 h3 h4 h5 h6 h7]
  have res: "parse_configuration (frame_of ''WA-25WB-NCWC-NCSA-IQSB-VS'') = Inr ([0], [0])"
    by simp
  from h1 h2 h3 h4 h5 h6 h7 res show ?thesis by blast
qed

text \<open>
  Against C2 as stated: the frames that read "SA-NC" and "SB-NC" are well formed and are
  rejected, by \<^verbatim>\<open>parse_configuration\<close> and so by \<^verbatim>\<open>__init__\<close>.
\<close>

theorem shutter_not_connected_rejected:
  "parse_configuration (frame_of ''WA-25WB-25WC-NCSA-NCSB-IQ'')
     = Inl (AssertionError ''%s: Unrecognized shutter configuration'')
   \<and> parse_configuration (frame_of ''WA-25WB-25WC-NCSA-IQSB-NC'')
     = Inl (AssertionError ''%s: Unrecognized shutter configuration'')
   \<and> Controller_init (Some (mock_port [frame_of ''WA-25WB-25WC-NCSA-IQSB-NC''])) False
     = Inl (AssertionError ''%s: Unrecognized shutter configuration'')"
  by code_simp

section \<open>Start-up with nothing connected\<close>

text \<open>
  When the frame yields no wheel and no shutter, \<^verbatim>\<open>__init__\<close> raises only if
  \<^verbatim>\<open>verbose\<close> is set: the \<^verbatim>\<open>raise\<close> of line 71 is inside the block of line 60.
\<close>

lemma init_without_hardware:
  assumes "port_readline (port_write p0 [0xFD]) = (configuration, p2)"
    and "parse_configuration configuration = Inr ([], [])"
  shows "Controller_init (Some p0) vb =
           (if vb then Inl (RuntimeError ''%s: No filter wheels or shutters connected'')
            else Inr \<lparr>verbose = False, port = p2, wheels = [], shutters = [],
                      pending_cmd = None, wheel_target_positions = []\<rparr>)"
  using assms by (simp add: Controller_init_def and_then_def)

text \<open>
  C1 at a frame that reports both wheels not connected and no SmartShutter. With
  \<^verbatim>\<open>verbose=False\<close> the constructor returns a session with no wheel and no shutter,
  having written the query byte only; with \<^verbatim>\<open>verbose=True\<close> the same frame raises
  \<^verbatim>\<open>RuntimeError\<close>.
\<close>

theorem no_hardware_accepted_when_quiet:
  "Controller_init (Some (mock_port [frame_of ''WA-NCWB-NCWC-NCSA-VSSB-VS''])) False
     = Inr \<lparr>verbose = False,
            port = \<lparr>rx = [], replies = [],
                    trace = [Write [0xFD], ReadLine (frame_of ''WA-NCWB-NCWC-NCSA-VSSB-VS'')]\<rparr>,
            wheels = [], shutters = [], pending_cmd = None, wheel_target_positions = []\<rparr>
   \<and> Controller_init (Some (mock_port [frame_of ''WA-NCWB-NCWC-NCSA-VSSB-VS''])) True
     = Inl (RuntimeError ''%s: No filter wheels or shutters connected'')"
  by code_simp

section \<open>The recorded target position\<close>

text \<open>
  A move from an idle session on a present wheel whose number is below the length of
  \<^verbatim>\<open>wheel_target_positions\<close> stores the position there, blocking or not, whatever the
  echo turns out to be.
\<close>

lemma move_records_target_position:
  assumes "n2c wheel = Inr (PInt ch)" and "ch \<in> set (wheels c)"
    and "0 \<le> position" "position < 10" "0 \<le> speed" "speed < 8"
    and "pending_cmd c = None"
    and "nat ch < length (wheel_target_positions c)"
    and "move c position wheel speed block = (r, c')"
  shows "wheel_target_positions c' = (wheel_target_positions c)[nat ch := position]"
proof -
  from n2c_channel [OF assms(1)] have ch: "0 \<le> ch" by auto
  with assms(8) have set: "py_setitem (wheel_target_positions c) ch position
      = Inr ((wheel_target_positions c)[nat ch := position])"
    by (simp add: py_setitem_def Let_def)
  let ?b = "word_of_int (push_bit 7 ch OR push_bit 4 speed OR position) :: byte"
  let ?c4 = "c\<lparr>port := port_write (port c) [?b], pending_cmd := Some [?b],
                wheel_target_positions := (wheel_target_positions c)[nat ch := position]\<rparr>"
  from move_idle [OF assms(1-7), of block] set assms(9)
  have run: "(if block then finish_moving ?c4 else (Inr (), ?c4)) = (r, c')"
    by (simp add: Let_def)
  show ?thesis
  proof (cases block)
    case False
    with run show ?thesis by auto
  next
    case True
    with run have fin: "finish_moving ?c4 = (r, c')" by simp
    have "pending_cmd ?c4 = Some [?b]" by simp
    from finish_moving_pending(6) [OF this fin] show ?thesis by simp
  qed
qed

text \<open>
  C3 with wheel B alone. \<^verbatim>\<open>wheel_target_positions\<close> has one entry per present wheel
  and is indexed by channel number, so with \<^verbatim>\<open>wheels = [1]\<close> the assignment of line 100
  raises \<^verbatim>\<open>IndexError\<close>: the homing move of \<^verbatim>\<open>__init__\<close> fails, and so does a move on
  "B" in a session with that wheel list, after the command byte is written and stored as
  pending and with the recorded positions unchanged.
\<close>

theorem only_wheel_B_index_error:
  "Controller_init (Some (mock_port [frame_of ''WA-NCWB-25WC-NCSA-VSSB-VS'', [0xE0, 0x0D]])) False
     = Inl IndexError
   \<and> move (mock_session [1] [] None [] [[0xE3, 0x0D]]) 3 (PStr ''B'') 6 True
     = (Inl IndexError,
        \<lparr>verbose = False,
         port = \<lparr>rx = [0xE3, 0x0D], replies = [], trace = [Write [0xE3]]\<rparr>,
         wheels = [1], shutters = [], pending_cmd = Some [0xE3],
         wheel_target_positions = [0]\<rparr>)"
  by code_simp

section \<open>Rejected arguments\<close>

text \<open>
  A call that names a channel that is not present, and a \<^verbatim>\<open>change_shutter\<close> or
  \<^verbatim>\<open>set_shutter_mode\<close> call with an unknown state or mode, raises and leaves the
  session and the port as they were, pending command or not. So does a move with a
  position or speed out of range when no command is pending.
\<close>

lemma move_invalid_channel_unchanged:
  assumes "\<And>ch. n2c wheel = Inr (PInt ch) \<Longrightarrow> ch \<notin> set (wheels c)"
  shows "\<exists>e. move c position wheel speed block = (Inl e, c)"
  using assms by (auto simp: move_def split: sum.splits pyval.splits)

lemma move_out_of_range_idle_unchanged:
  assumes "pending_cmd c = None"
    and "\<not> (0 \<le> position \<and> position < 10) \<or> \<not> (0 \<le> speed \<and> speed < 8)"
  shows "\<exists>e. move c position wheel speed block = (Inl e, c)"
  using assms by (auto simp: move_def and_then_def split: sum.splits pyval.splits)

lemma change_shutter_invalid_unchanged:
  assumes "(\<forall>sh. n2c shutter = Inr (PInt sh) \<longrightarrow> sh \<notin> set (shutters c))
           \<or> state \<notin> {PStr ''closed'', PStr ''open'', PInt 0, PInt 1}"
  shows "\<exists>e. change_shutter c state shutter block = (Inl e, c)"
  using assms by (auto simp: change_shutter_def split: sum.splits pyval.splits)

lemma set_shutter_mode_invalid_unchanged:
  assumes "(\<forall>sh. n2c shutter = Inr (PInt sh) \<longrightarrow> sh \<notin> set (shutters c))
           \<or> mode \<notin> {PStr ''fast'', PStr ''soft''}"
  shows "\<exists>e. set_shutter_mode c mode shutter block = (Inl e, c)"
  using assms by (auto simp: set_shutter_mode_def split: sum.splits pyval.splits)

text \<open>
  C4 for a move while a command is pending. \<^verbatim>\<open>move\<close> checks position and speed
  (lines 92 and 93) after the forced \<^verbatim>\<open>_finish_moving\<close> of line 91. After a move to
  position 3 that did not block, a move to position 10 reads the two bytes of the pending
  echo and clears the pending command before it raises \<^verbatim>\<open>AssertionError\<close>;
  \<^verbatim>\<open>change_shutter\<close> with an unknown state, from the same session, raises and changes
  nothing.
\<close>

theorem move_checks_position_after_forced_read:
  "move (mock_session [0] [0] None [] [[0x63, 0x0D]]) 3 (PStr ''A'') 6 False
     = (Inr (),
        \<lparr>verbose = False,
         port = \<lparr>rx = [0x63, 0x0D], replies = [], trace = [Write [0x63]]\<rparr>,
         wheels = [0], shutters = [0], pending_cmd = Some [0x63],
         wheel_target_positions = [3]\<rparr>)
   \<and> move \<lparr>verbose = False,
            port = \<lparr>rx = [0x63, 0x0D], replies = [], trace = [Write [0x63]]\<rparr>,
            wheels = [0], shutters = [0], pending_cmd = Some [0x63],
            wheel_target_positions = [3]\<rparr> 10 (PStr ''A'') 6 True
     = (Inl (AssertionError ''''),
        \<lparr>verbose = False,
         port = \<lparr>rx = [], replies = [], trace = [Write [0x63], Read 2 [0x63, 0x0D]]\<rparr>,
         wheels = [0], shutters = [0], pending_cmd = None,
         wheel_target_positions = [3]\<rparr>)
   \<and> change_shutter \<lparr>verbose = False,
            port = \<lparr>rx = [0x63, 0x0D], replies = [], trace = [Write [0x63]]\<rparr>,
            wheels = [0], shutters = [0], pending_cmd = Some [0x63],
            wheel_target_positions = [3]\<rparr> (PStr ''ajar'') (PStr ''A'') True
     = (Inl (AssertionError ''''),
        \<lparr>verbose = False,
         port = \<lparr>rx = [0x63, 0x0D], replies = [], trace = [Write [0x63]]\<rparr>,
         wheels = [0], shutters = [0], pending_cmd = Some [0x63],
         wheel_target_positions = [3]\<rparr>)"
  by code_simp

end
